theory Spec2Isabelle
  imports Complex_Main "HOL-Library.Word" "HOL-Library.Monad_Syntax"
begin

section \<open>Scalar upwind convection: the data model\<close>

text \<open>
  The development embeds \<^verbatim>\<open>CUpwScalar\<close> of
  \<^verbatim>\<open>SU2_CFD/include/numerics/scalar/scalar_convection.hpp\<close>.

  \<^verbatim>\<open>su2double\<close> is read as a real number: a statement over this type is one of exact
  arithmetic, without rounding, infinities or NaN. Where a statement depends on the
  overflow of the machine type, the split step is given a second time over machine numbers,
  in the section on machine arithmetic.
\<close>

type_synonym su2double = real

text \<open>
  The configuration object is queried through three getters only. The enumerations are
  declared elsewhere; the two enumerators the constructor compares against are kept by
  name, every other enumerator is an \<open>Other\<close> value.
\<close>

datatype ENUM_TIME_INT = EULER_IMPLICIT | Other_TIME_INT nat

datatype ENUM_REGIME = INCOMPRESSIBLE | Other_REGIME nat

record CConfig =
  Kind_TimeIntScheme_Turb :: ENUM_TIME_INT
  Kind_Regime :: ENUM_REGIME
  Dynamic_Grid :: bool

text \<open>
  The members of \<^verbatim>\<open>CNumerics\<close> that \<^verbatim>\<open>CUpwScalar\<close> reads, followed by its own.
  A pointer to \<^verbatim>\<open>su2double\<close> is the list of the entries that may be read through it (the
  null pointer is the empty list); \<^verbatim>\<open>unsigned short\<close> is a 16-bit word.
\<close>

record CUpwScalar =
  nDim :: "16 word"
  nVar :: "16 word"
  Normal :: "su2double list"
  ScalarVar_i :: "su2double list"
  ScalarVar_j :: "su2double list"
  GridVel_i :: "su2double list"
  GridVel_j :: "su2double list"
  V_i :: "su2double list"
  V_j :: "su2double list"
  Density_i :: su2double
  Density_j :: su2double
  a0 :: su2double
  a1 :: su2double
  Flux :: "su2double list"
  Jacobian_i :: "su2double list list"
  Jacobian_j :: "su2double list list"
  implicit :: bool
  incompressible :: bool
  dynamic_grid :: bool

text \<open>
  The differentiation tape is seen through the calls made on it: the trace of
  \<^verbatim>\<open>AD::StartPreacc\<close>, \<^verbatim>\<open>AD::SetPreaccIn\<close>, \<^verbatim>\<open>AD::SetPreaccOut\<close> and
  \<^verbatim>\<open>AD::EndPreacc\<close>, each registration with the array it names and the entry count
  passed with it.
\<close>

datatype tracked =
  TNormal | TScalarVar_i | TScalarVar_j | TGridVel_i | TGridVel_j | TFlux | TModel string

datatype ad_event =
  StartPreacc | SetPreaccIn tracked nat | SetPreaccOut tracked nat | EndPreacc

type_synonym ResidualType = "su2double list \<times> su2double list list \<times> su2double list list"

section \<open>The constructor\<close>

text \<open>
  \<^verbatim>\<open>new su2double[n]\<close> default-initialises its \<open>n\<close> entries. What that leaves in an
  entry depends on the declaration of \<^verbatim>\<open>su2double\<close>, which is not part of this file
  (nothing is written for a built-in floating-point type), so the content of fresh storage is
  a parameter: entry \<open>k\<close> holds \<open>fresh k\<close>.
\<close>

definition new_array :: "(nat \<Rightarrow> su2double) \<Rightarrow> nat \<Rightarrow> su2double list" where
  "new_array fresh n = map fresh [0..<n]"

text \<open>
  Lines 77 to 89. \<open>a0\<close> and \<open>a1\<close> take their default member initialisers (lines 50
  and 51), the three flags are read from the configuration, and the loop over \<open>iVar\<close>
  allocates row \<open>iVar\<close> of both Jacobians.

  Modelled from the spec: the constructor of the base class \<^verbatim>\<open>CNumerics\<close>, which is not
  part of this file. It fixes \<open>nDim\<close> and \<open>nVar\<close> for the lifetime of the object; the
  per-edge arrays are handed in by the caller before each call, so they are null pointers
  here, and the densities, which every call overwrites before reading them, start at zero.
\<close>

definition CUpwScalar_ctor ::
  "(nat \<Rightarrow> su2double) \<Rightarrow> (nat \<Rightarrow> nat \<Rightarrow> su2double) \<Rightarrow> (nat \<Rightarrow> nat \<Rightarrow> su2double) \<Rightarrow>
   16 word \<Rightarrow> 16 word \<Rightarrow> CConfig \<Rightarrow> CUpwScalar" where
  "CUpwScalar_ctor freshF freshI freshJ ndim nvar config =
     \<lparr> nDim = ndim, nVar = nvar,
       Normal = [], ScalarVar_i = [], ScalarVar_j = [],
       GridVel_i = [], GridVel_j = [], V_i = [], V_j = [],
       Density_i = 0, Density_j = 0,
       a0 = 0.0, a1 = 0.0,
       Flux = new_array freshF (unat nvar),
       Jacobian_i = map (\<lambda>iVar. new_array (freshI iVar) (unat nvar)) [0..<unat nvar],
       Jacobian_j = map (\<lambda>iVar. new_array (freshJ iVar) (unat nvar)) [0..<unat nvar],
       implicit = (Kind_TimeIntScheme_Turb config = EULER_IMPLICIT),
       incompressible = (Kind_Regime config = INCOMPRESSIBLE),
       dynamic_grid = Dynamic_Grid config \<rparr>"

section \<open>The residual computation\<close>

text \<open>
  Reading entry \<open>i\<close> through a pointer. A read beyond the entries the pointer refers to
  has no defined behaviour in the source; the model returns \<open>None\<close> there.
\<close>

definition rd :: "su2double list \<Rightarrow> nat \<Rightarrow> su2double option" where
  "rd p i = (if i < length p then Some (p ! i) else None)"

text \<open>
  Lines 128 to 132: the loop of the moving-grid branch, from counter \<open>iDim\<close> with the
  accumulator \<open>q_ij\<close>. The counter is an \<^verbatim>\<open>unsigned short\<close>; the index \<open>iDim + 1\<close>
  is computed after integer promotion and does not wrap.
\<close>

function dynamic_loop :: "CUpwScalar \<Rightarrow> 16 word \<Rightarrow> su2double \<Rightarrow> su2double option" where
  "dynamic_loop s iDim q_ij =
     (if iDim < nDim s then
        do { vi \<leftarrow> rd (V_i s) (unat iDim + 1);
             gi \<leftarrow> rd (GridVel_i s) (unat iDim);
             vj \<leftarrow> rd (V_j s) (unat iDim + 1);
             gj \<leftarrow> rd (GridVel_j s) (unat iDim);
             n \<leftarrow> rd (Normal s) (unat iDim);
             let Velocity_i = vi - gi;
                 Velocity_j = vj - gj
             in dynamic_loop s (iDim + 1) (q_ij + 0.5 * (Velocity_i + Velocity_j) * n) }
      else Some q_ij)"
  by pat_completeness auto

text \<open>Lines 134 to 136: the loop of the static-grid branch.\<close>

function static_loop :: "CUpwScalar \<Rightarrow> 16 word \<Rightarrow> su2double \<Rightarrow> su2double option" where
  "static_loop s iDim q_ij =
     (if iDim < nDim s then
        do { vi \<leftarrow> rd (V_i s) (unat iDim + 1);
             vj \<leftarrow> rd (V_j s) (unat iDim + 1);
             n \<leftarrow> rd (Normal s) (unat iDim);
             static_loop s (iDim + 1) (q_ij + 0.5 * (vi + vj) * n) }
      else Some q_ij)"
  by pat_completeness auto

termination dynamic_loop
  apply (relation "measure (\<lambda>(s, iDim, q). unat (nDim s) - unat iDim)")
   apply simp
  apply simp
  apply unat_arith
  done

termination static_loop
  apply (relation "measure (\<lambda>(s, iDim, q). unat (nDim s) - unat iDim)")
   apply simp
  apply simp
  apply unat_arith
  done

declare dynamic_loop.simps [simp del]
declare static_loop.simps [simp del]

text \<open>Lines 126 to 137: the local \<open>q_ij\<close> once the loop of the active branch is done.\<close>

definition convective_speed :: "CUpwScalar \<Rightarrow> su2double option" where
  "convective_speed s =
     (if dynamic_grid s then dynamic_loop s 0 0.0 else static_loop s 0 0.0)"

text \<open>
  Lines 123 to 140: the densities, the convective speed and its split. The local \<open>q_ij\<close>
  is returned beside the updated object so that statements can name it.
\<close>

definition split_step :: "CUpwScalar \<Rightarrow> (su2double \<times> CUpwScalar) option" where
  "split_step s =
     do { di \<leftarrow> rd (V_i s) (unat (nDim s) + 2);
          dj \<leftarrow> rd (V_j s) (unat (nDim s) + 2);
          let s = s\<lparr>Density_i := di, Density_j := dj\<rparr>;
          q_ij \<leftarrow> convective_speed s;
          Some (q_ij, s\<lparr>a0 := 0.5 * (q_ij + \<bar>q_ij\<bar>), a1 := 0.5 * (q_ij - \<bar>q_ij\<bar>)\<rparr>) }"

text \<open>Lines 113 to 119: the registrations of the base inputs, in call order.\<close>

definition base_inputs :: "CUpwScalar \<Rightarrow> ad_event list" where
  "base_inputs s =
     [SetPreaccIn TNormal (unat (nDim s)),
      SetPreaccIn TScalarVar_i (unat (nVar s)),
      SetPreaccIn TScalarVar_j (unat (nVar s))] @
     (if dynamic_grid s
      then [SetPreaccIn TGridVel_i (unat (nDim s)), SetPreaccIn TGridVel_j (unat (nDim s))]
      else [])"

text \<open>
  Lines 111 to 148. The two pure virtual members are parameters:
  \<open>ExtraADPreaccIn\<close> gives the registrations the model adds to the tape, and
  \<open>FinishResidualCalc\<close> the object as the model leaves it (\<open>None\<close> when the model itself
  reads out of range). The result is the view of the three buffers, the object and the tape.
\<close>

definition ComputeResidual ::
  "(CUpwScalar \<Rightarrow> ad_event list) \<Rightarrow> (CConfig \<Rightarrow> CUpwScalar \<Rightarrow> CUpwScalar option) \<Rightarrow>
   CConfig \<Rightarrow> CUpwScalar \<Rightarrow> ad_event list \<Rightarrow>
   (ResidualType \<times> CUpwScalar \<times> ad_event list) option" where
  "ComputeResidual ExtraADPreaccIn FinishResidualCalc config s tape =
     (let tape = tape @ [StartPreacc];
          tape = tape @ base_inputs s;
          tape = tape @ ExtraADPreaccIn s
      in do { (q_ij, s) \<leftarrow> split_step s;
              s \<leftarrow> FinishResidualCalc config s;
              let tape = tape @ [SetPreaccOut TFlux (unat (nVar s))];
                  tape = tape @ [EndPreacc]
              in Some ((Flux s, Jacobian_i s, Jacobian_j s), s, tape) })"

section \<open>The linear upwind model\<close>

text \<open>
  Modelled from the spec: the linear upwind variant of the two virtual members, whose class
  is not part of this file. Section 4.2 of the specification gives it as
  \<open>Flux = a0 * scalar_i + a1 * scalar_j\<close>, one entry per transported quantity, with
  \<open>Jacobian_i = a0 * Identity\<close> and \<open>Jacobian_j = a1 * Identity\<close>, every entry of the
  three buffers written. It registers no input beyond the base set. Scalar arrays narrower
  than \<open>nVar\<close> are a read out of range.
\<close>

definition linear_ExtraADPreaccIn :: "CUpwScalar \<Rightarrow> ad_event list" where
  "linear_ExtraADPreaccIn s = []"

definition linear_FinishResidualCalc :: "CConfig \<Rightarrow> CUpwScalar \<Rightarrow> CUpwScalar option" where
  "linear_FinishResidualCalc config s =
     (if unat (nVar s) \<le> length (ScalarVar_i s) \<and> unat (nVar s) \<le> length (ScalarVar_j s)
      then Some (s\<lparr>
        Flux := map (\<lambda>iVar. a0 s * ScalarVar_i s ! iVar + a1 s * ScalarVar_j s ! iVar)
                  [0..<unat (nVar s)],
        Jacobian_i := map (\<lambda>iVar. map (\<lambda>jVar. if iVar = jVar then a0 s else 0)
                  [0..<unat (nVar s)]) [0..<unat (nVar s)],
        Jacobian_j := map (\<lambda>iVar. map (\<lambda>jVar. if iVar = jVar then a1 s else 0)
                  [0..<unat (nVar s)]) [0..<unat (nVar s)]\<rparr>)
      else None)"

section \<open>What the specification says of the convective speed\<close>

text \<open>
  The inputs of a call are wide enough when every index the skeleton uses is in range:
  \<open>nDim\<close> entries of the normal, \<open>nDim + 3\<close> entries of each primitive vector (the
  density sits at index \<open>nDim + 2\<close>) and, on a moving grid, \<open>nDim\<close> entries of each
  grid velocity.
\<close>

definition inputs_ok :: "CUpwScalar \<Rightarrow> bool" where
  "inputs_ok s \<longleftrightarrow>
     unat (nDim s) \<le> length (Normal s) \<and>
     unat (nDim s) + 3 \<le> length (V_i s) \<and>
     unat (nDim s) + 3 \<le> length (V_j s) \<and>
     (dynamic_grid s \<longrightarrow>
        unat (nDim s) \<le> length (GridVel_i s) \<and> unat (nDim s) \<le> length (GridVel_j s))"

text \<open>
  The specification's words, section 4.1: the relative velocity component of one side is
  the flow velocity minus the grid velocity if the mesh moves and the flow velocity
  otherwise; the speed is the sum over the dimensions of half the two sides' sum times the
  normal component.
\<close>

definition spec_velocity :: "CUpwScalar \<Rightarrow> su2double list \<Rightarrow> su2double list \<Rightarrow> nat \<Rightarrow> su2double" where
  "spec_velocity s V GridVel d =
     (if dynamic_grid s then V ! (d + 1) - GridVel ! d else V ! (d + 1))"

definition spec_q :: "CUpwScalar \<Rightarrow> su2double" where
  "spec_q s =
     (\<Sum>d \<leftarrow> [0..<unat (nDim s)].
        0.5 * (spec_velocity s (V_i s) (GridVel_i s) d + spec_velocity s (V_j s) (GridVel_j s) d)
          * Normal s ! d)"

text \<open>
  The object as lines 123 to 140 leave it when every index is in range, written with the
  specification's speed.
\<close>

definition split_state :: "CUpwScalar \<Rightarrow> CUpwScalar" where
  "split_state s =
     s\<lparr>Density_i := V_i s ! (unat (nDim s) + 2), Density_j := V_j s ! (unat (nDim s) + 2),
       a0 := 0.5 * (spec_q s + \<bar>spec_q s\<bar>), a1 := 0.5 * (spec_q s - \<bar>spec_q s\<bar>)\<rparr>"

section \<open>Concrete edges\<close>

text \<open>
  An engine for two dimensions and one transported scalar, its fresh storage holding zeros,
  and the edges on which the statements below are exercised. A primitive vector holds the
  velocity at indices 1 and 2 and the density at index 4.
\<close>

definition example_config :: "bool \<Rightarrow> CConfig" where
  "example_config moving =
     \<lparr>Kind_TimeIntScheme_Turb = EULER_IMPLICIT, Kind_Regime = INCOMPRESSIBLE,
      Dynamic_Grid = moving\<rparr>"

definition example_engine :: "bool \<Rightarrow> CUpwScalar" where
  "example_engine moving =
     CUpwScalar_ctor (\<lambda>k. 0) (\<lambda>i k. 0) (\<lambda>i k. 0) 2 1 (example_config moving)"

text \<open>Static mesh: velocities \<open>[2, 0]\<close> and \<open>[-1, 0]\<close>, scalars 3 and 5.\<close>

definition static_edge :: CUpwScalar where
  "static_edge =
     (example_engine False)\<lparr>Normal := [1, 0], ScalarVar_i := [3], ScalarVar_j := [5],
       V_i := [0, 2, 0, 0, 1], V_j := [0, - 1, 0, 0, 1]\<rparr>"

text \<open>The same edge on a mesh that moves with velocity \<open>[2, 0]\<close> on both sides.\<close>

definition moving_edge :: CUpwScalar where
  "moving_edge =
     (example_engine True)\<lparr>Normal := [1, 0], ScalarVar_i := [3], ScalarVar_j := [5],
       GridVel_i := [2, 0], GridVel_j := [2, 0],
       V_i := [0, 2, 0, 0, 1], V_j := [0, - 1, 0, 0, 1]\<rparr>"

text \<open>A moving mesh whose two sides each move with the flow, at different velocities.\<close>

definition comoving_edge :: CUpwScalar where
  "comoving_edge =
     (example_engine True)\<lparr>Normal := [1, 2], ScalarVar_i := [3], ScalarVar_j := [5],
       GridVel_i := [7, - 3], GridVel_j := [100, 5],
       V_i := [0, 7, - 3, 0, 1], V_j := [0, 100, 5, 0, 1]\<rparr>"

text \<open>The static edge with a face normal of length zero.\<close>

definition degenerate_edge :: CUpwScalar where
  "degenerate_edge = static_edge\<lparr>Normal := [0, 0]\<rparr>"

section \<open>The split step in machine arithmetic\<close>


















section \<open>The loops compute the specification's sum\<close>

lemma unat_incr: "(i :: 16 word) < n \<Longrightarrow> unat (i + 1) = Suc (unat i)"
  by unat_arith

lemma rd_in_range: "i < length p \<Longrightarrow> rd p i = Some (p ! i)"
  by (simp add: rd_def)

lemma static_loop_sum:
  assumes "unat (nDim s) \<le> length (Normal s)"
    and "unat (nDim s) < length (V_i s)"
    and "unat (nDim s) < length (V_j s)"
  shows "static_loop s iDim q =
     Some (q + (\<Sum>d \<leftarrow> [unat iDim..<unat (nDim s)].
        0.5 * (V_i s ! (d + 1) + V_j s ! (d + 1)) * Normal s ! d))"
  using assms
proof (induction s iDim q rule: static_loop.induct)
  case (1 s iDim q_ij)
  show ?case
  proof (cases "iDim < nDim s")
    case True
    then have lt: "unat iDim < unat (nDim s)"
      by (simp add: word_less_nat_alt)
    have reads: "rd (V_i s) (unat iDim + 1) = Some (V_i s ! (unat iDim + 1))"
      "rd (V_j s) (unat iDim + 1) = Some (V_j s ! (unat iDim + 1))"
      "rd (Normal s) (unat iDim) = Some (Normal s ! unat iDim)"
      using lt "1.prems" by (simp_all add: rd_in_range)
    have step: "static_loop s (iDim + 1)
          (q_ij + 0.5 * (V_i s ! (unat iDim + 1) + V_j s ! (unat iDim + 1)) * Normal s ! unat iDim) =
        Some (q_ij + 0.5 * (V_i s ! (unat iDim + 1) + V_j s ! (unat iDim + 1)) * Normal s ! unat iDim
          + (\<Sum>d \<leftarrow> [unat (iDim + 1)..<unat (nDim s)].
              0.5 * (V_i s ! (d + 1) + V_j s ! (d + 1)) * Normal s ! d))"
      using "1.IH" [OF True reads] "1.prems" .
    have upt: "[unat iDim..<unat (nDim s)] = unat iDim # [unat (iDim + 1)..<unat (nDim s)]"
      using lt by (simp add: unat_incr [OF True] upt_conv_Cons)
    show ?thesis
      unfolding static_loop.simps [of s iDim q_ij]
      using True reads step upt by simp
  next
    case False
    then have "unat (nDim s) \<le> unat iDim"
      by (simp add: word_less_nat_alt)
    then show ?thesis
      unfolding static_loop.simps [of s iDim q_ij]
      using False by simp
  qed
qed

lemma dynamic_loop_sum:
  assumes "unat (nDim s) \<le> length (Normal s)"
    and "unat (nDim s) < length (V_i s)"
    and "unat (nDim s) < length (V_j s)"
    and "unat (nDim s) \<le> length (GridVel_i s)"
    and "unat (nDim s) \<le> length (GridVel_j s)"
  shows "dynamic_loop s iDim q =
     Some (q + (\<Sum>d \<leftarrow> [unat iDim..<unat (nDim s)].
        0.5 * ((V_i s ! (d + 1) - GridVel_i s ! d) + (V_j s ! (d + 1) - GridVel_j s ! d))
          * Normal s ! d))"
  using assms
proof (induction s iDim q rule: dynamic_loop.induct)
  case (1 s iDim q_ij)
  show ?case
  proof (cases "iDim < nDim s")
    case True
    then have lt: "unat iDim < unat (nDim s)"
      by (simp add: word_less_nat_alt)
    have reads: "rd (V_i s) (unat iDim + 1) = Some (V_i s ! (unat iDim + 1))"
      "rd (GridVel_i s) (unat iDim) = Some (GridVel_i s ! unat iDim)"
      "rd (V_j s) (unat iDim + 1) = Some (V_j s ! (unat iDim + 1))"
      "rd (GridVel_j s) (unat iDim) = Some (GridVel_j s ! unat iDim)"
      "rd (Normal s) (unat iDim) = Some (Normal s ! unat iDim)"
      using lt "1.prems" by (simp_all add: rd_in_range)
    have step: "dynamic_loop s (iDim + 1)
          (q_ij + 0.5 * ((V_i s ! (unat iDim + 1) - GridVel_i s ! unat iDim)
             + (V_j s ! (unat iDim + 1) - GridVel_j s ! unat iDim)) * Normal s ! unat iDim) =
        Some (q_ij + 0.5 * ((V_i s ! (unat iDim + 1) - GridVel_i s ! unat iDim)
             + (V_j s ! (unat iDim + 1) - GridVel_j s ! unat iDim)) * Normal s ! unat iDim
          + (\<Sum>d \<leftarrow> [unat (iDim + 1)..<unat (nDim s)].
              0.5 * ((V_i s ! (d + 1) - GridVel_i s ! d) + (V_j s ! (d + 1) - GridVel_j s ! d))
                * Normal s ! d))"
      using "1.IH" [OF True reads refl refl] "1.prems" .
    have upt: "[unat iDim..<unat (nDim s)] = unat iDim # [unat (iDim + 1)..<unat (nDim s)]"
      using lt by (simp add: unat_incr [OF True] upt_conv_Cons)
    show ?thesis
      unfolding dynamic_loop.simps [of s iDim q_ij]
      using True reads step upt by (simp add: Let_def)
  next
    case False
    then have "unat (nDim s) \<le> unat iDim"
      by (simp add: word_less_nat_alt)
    then show ?thesis
      unfolding dynamic_loop.simps [of s iDim q_ij]
      using False by simp
  qed
qed

lemma convective_speed_spec:
  assumes "inputs_ok s"
  shows "convective_speed s = Some (spec_q s)"
proof (cases "dynamic_grid s")
  case True
  then show ?thesis
    using assms dynamic_loop_sum [of s 0 0]
    by (simp add: convective_speed_def spec_q_def spec_velocity_def inputs_ok_def)
next
  case False
  then show ?thesis
    using assms static_loop_sum [of s 0 0]
    by (simp add: convective_speed_def spec_q_def spec_velocity_def inputs_ok_def)
qed

lemma inputs_ok_Density:
  "inputs_ok (s\<lparr>Density_i := di, Density_j := dj\<rparr>) = inputs_ok s"
  by (simp add: inputs_ok_def)

lemma spec_q_Density:
  "spec_q (s\<lparr>Density_i := di, Density_j := dj\<rparr>) = spec_q s"
  by (simp add: spec_q_def spec_velocity_def)

lemma split_step_spec:
  assumes "inputs_ok s"
  shows "split_step s = Some (spec_q s, split_state s)"
proof -
  have di: "rd (V_i s) (unat (nDim s) + 2) = Some (V_i s ! (unat (nDim s) + 2))"
    and dj: "rd (V_j s) (unat (nDim s) + 2) = Some (V_j s ! (unat (nDim s) + 2))"
    using assms by (simp_all add: inputs_ok_def rd_in_range)
  have q: "convective_speed (s\<lparr>Density_i := V_i s ! (unat (nDim s) + 2),
        Density_j := V_j s ! (unat (nDim s) + 2)\<rparr>) = Some (spec_q s)"
    using assms by (simp add: convective_speed_spec inputs_ok_Density spec_q_Density)
  show ?thesis
    unfolding split_step_def split_state_def di dj
    using q by (simp add: Let_def)
qed

lemma upwind_split:
  fixes q :: real
  shows "0.5 * (q + \<bar>q\<bar>) = max q 0" and "0.5 * (q - \<bar>q\<bar>) = min q 0"
  by (simp_all add: max_def min_def abs_if)

lemma a0_split_state: "a0 (split_state s) = max (spec_q s) 0"
  by (simp add: split_state_def upwind_split [simplified])

lemma a1_split_state: "a1 (split_state s) = min (spec_q s) 0"
  by (simp add: split_state_def upwind_split [simplified])

lemma ComputeResidual_unfold:
  "ComputeResidual E F config s tape =
     do { (q_ij, s1) \<leftarrow> split_step s;
          s2 \<leftarrow> F config s1;
          Some ((Flux s2, Jacobian_i s2, Jacobian_j s2), s2,
            tape @ [StartPreacc] @ base_inputs s @ E s @
              [SetPreaccOut TFlux (unat (nVar s2)), EndPreacc]) }"
  by (simp add: ComputeResidual_def Let_def)

section \<open>The convective speed and its split\<close>

lemmas edge_defs = static_edge_def moving_edge_def comoving_edge_def degenerate_edge_def
  example_engine_def example_config_def CUpwScalar_ctor_def new_array_def

lemma all_less_two: "(\<forall>d<2::nat. P d) \<longleftrightarrow> P 0 \<and> P 1"
  by (auto simp add: less_2_cases_iff)

lemma sum_list_all_zero:
  fixes f :: "nat \<Rightarrow> real"
  assumes "\<forall>d<n. f d = 0"
  shows "(\<Sum>d \<leftarrow> [0..<n]. f d) = 0"
  using assms by (induction n) simp_all

text \<open>
  Claim C1. For wide enough inputs the local \<open>q_ij\<close> of \<open>ComputeResidual\<close> is the sum over
  the dimensions \<open>d\<close> of \<open>0.5 * (v_i d + v_j d) * Normal d\<close>, where \<open>v d\<close> is the primitive
  entry \<open>d + 1\<close> minus the grid velocity on a moving grid and the primitive entry alone
  otherwise; the coefficients \<open>0.5 * (q + |q|)\<close> and \<open>0.5 * (q - |q|)\<close> stored in \<open>a0\<close> and
  \<open>a1\<close> are \<open>max q 0\<close> and \<open>min q 0\<close>; and it is this object that \<open>ComputeResidual\<close> hands
  to the model.
\<close>
theorem convective_speed_split:
  assumes "inputs_ok s"
  shows "\<exists>s1. split_step s = Some (spec_q s, s1) \<and>
           a0 s1 = 0.5 * (spec_q s + \<bar>spec_q s\<bar>) \<and> a1 s1 = 0.5 * (spec_q s - \<bar>spec_q s\<bar>) \<and>
           a0 s1 = max (spec_q s) 0 \<and> a1 s1 = min (spec_q s) 0 \<and>
           ComputeResidual E F config s tape =
             do { s2 \<leftarrow> F config s1;
                  Some ((Flux s2, Jacobian_i s2, Jacobian_j s2), s2,
                    tape @ [StartPreacc] @ base_inputs s @ E s @
                      [SetPreaccOut TFlux (unat (nVar s2)), EndPreacc]) }"
proof (intro exI conjI)
  show "split_step s = Some (spec_q s, split_state s)"
    using assms by (rule split_step_spec)
  then show "ComputeResidual E F config s tape =
             do { s2 \<leftarrow> F config (split_state s);
                  Some ((Flux s2, Jacobian_i s2, Jacobian_j s2), s2,
                    tape @ [StartPreacc] @ base_inputs s @ E s @
                      [SetPreaccOut TFlux (unat (nVar s2)), EndPreacc]) }"
    by (simp add: ComputeResidual_unfold)
  show "a0 (split_state s) = 0.5 * (spec_q s + \<bar>spec_q s\<bar>)"
    "a1 (split_state s) = 0.5 * (spec_q s - \<bar>spec_q s\<bar>)"
    by (simp_all add: split_state_def)
  show "a0 (split_state s) = max (spec_q s) 0" by (rule a0_split_state)
  show "a1 (split_state s) = min (spec_q s) 0" by (rule a1_split_state)
qed

text \<open>The statement of C1 at a concrete edge.\<close>

theorem convective_speed_split_witness:
  "inputs_ok static_edge \<and> spec_q static_edge = 1 / 2 \<and>
   (\<exists>s1. split_step static_edge = Some (1 / 2, s1) \<and> a0 s1 = 1 / 2 \<and> a1 s1 = 0)"
proof -
  have ok: "inputs_ok static_edge"
    by (simp add: inputs_ok_def edge_defs)
  have q: "spec_q static_edge = 1 / 2"
    by (simp add: spec_q_def spec_velocity_def edge_defs upt_rec)
  from convective_speed_split [OF ok, of "\<lambda>s. []" "\<lambda>c s. None" "example_config False" "[]"]
  obtain s1 where "split_step static_edge = Some (spec_q static_edge, s1)"
    and "a0 s1 = max (spec_q static_edge) 0" and "a1 s1 = min (spec_q static_edge) 0"
    by blast
  then have "split_step static_edge = Some (1 / 2, s1) \<and> a0 s1 = 1 / 2 \<and> a1 s1 = 0"
    by (simp add: q)
  then show ?thesis using ok q by blast
qed

text \<open>
  Claim C2. For wide enough inputs, after the split step \<open>a0\<close> is not negative, \<open>a1\<close> is
  not positive and their sum is the computed convective speed.
\<close>
theorem split_signs_sum:
  assumes "inputs_ok s"
  shows "\<exists>q s1. split_step s = Some (q, s1) \<and> q = spec_q s \<and>
           0 \<le> a0 s1 \<and> a1 s1 \<le> 0 \<and> a0 s1 + a1 s1 = q"
proof (intro exI conjI)
  show "split_step s = Some (spec_q s, split_state s)"
    using assms by (rule split_step_spec)
  show "spec_q s = spec_q s" ..
  show "0 \<le> a0 (split_state s)" by (simp add: a0_split_state)
  show "a1 (split_state s) \<le> 0" by (simp add: a1_split_state)
  show "a0 (split_state s) + a1 (split_state s) = spec_q s"
    by (simp add: a0_split_state a1_split_state max_def min_def)
qed

text \<open>
  Claim C9. For wide enough inputs, after the split step the product of \<open>a0\<close> and \<open>a1\<close>
  is zero, their difference is the absolute value of the convective speed, at most one of
  them is not zero, and both are zero exactly when the speed is zero.
\<close>
theorem split_complementary:
  assumes "inputs_ok s"
  shows "\<exists>q s1. split_step s = Some (q, s1) \<and>
           a0 s1 * a1 s1 = 0 \<and> a0 s1 - a1 s1 = \<bar>q\<bar> \<and>
           (a0 s1 = 0 \<or> a1 s1 = 0) \<and> ((a0 s1 = 0 \<and> a1 s1 = 0) = (q = 0))"
proof (intro exI conjI)
  show "split_step s = Some (spec_q s, split_state s)"
    using assms by (rule split_step_spec)
  show "a0 (split_state s) * a1 (split_state s) = 0"
    by (simp add: a0_split_state a1_split_state max_def min_def)
  show "a0 (split_state s) - a1 (split_state s) = \<bar>spec_q s\<bar>"
    by (simp add: a0_split_state a1_split_state max_def min_def)
  show "a0 (split_state s) = 0 \<or> a1 (split_state s) = 0"
    by (simp add: a0_split_state a1_split_state max_def min_def)
  show "(a0 (split_state s) = 0 \<and> a1 (split_state s) = 0) = (spec_q s = 0)"
    by (auto simp add: a0_split_state a1_split_state max_def min_def split: if_splits)
qed

lemma spec_q_comoving:
  assumes "dynamic_grid s"
    and "\<forall>d<unat (nDim s). V_i s ! (d + 1) = GridVel_i s ! d"
    and "\<forall>d<unat (nDim s). V_j s ! (d + 1) = GridVel_j s ! d"
  shows "spec_q s = 0"
  unfolding spec_q_def
  using assms by (intro sum_list_all_zero) (simp add: spec_velocity_def)


text \<open>
  Claim C4. On a moving grid, when on both sides every velocity component of the primitive
  vector equals the grid velocity component, the convective speed is zero and so are \<open>a0\<close>
  and \<open>a1\<close>, whatever the common velocities are.
\<close>
theorem galilean_invariance:
  assumes "inputs_ok s" and "dynamic_grid s"
    and "\<forall>d<unat (nDim s). V_i s ! (d + 1) = GridVel_i s ! d"
    and "\<forall>d<unat (nDim s). V_j s ! (d + 1) = GridVel_j s ! d"
  shows "\<exists>s1. split_step s = Some (0, s1) \<and> a0 s1 = 0 \<and> a1 s1 = 0"
proof -
  have q: "spec_q s = 0"
    using assms(2-4) by (rule spec_q_comoving)
  have "split_step s = Some (0, split_state s)"
    using split_step_spec [OF assms(1)] by (simp add: q)
  moreover have "a0 (split_state s) = 0" "a1 (split_state s) = 0"
    by (simp_all add: a0_split_state a1_split_state q)
  ultimately show ?thesis by blast
qed



text \<open>The statement of C2 at a concrete edge.\<close>

theorem split_signs_sum_witness:
  "inputs_ok moving_edge \<and>
   (\<exists>q s1. split_step moving_edge = Some (q, s1) \<and> q = - 3 / 2 \<and>
      0 \<le> a0 s1 \<and> a1 s1 \<le> 0 \<and> a0 s1 + a1 s1 = q)"
proof -
  have ok: "inputs_ok moving_edge"
    by (simp add: inputs_ok_def edge_defs)
  have q: "spec_q moving_edge = - 3 / 2"
    by (simp add: spec_q_def spec_velocity_def edge_defs upt_rec)
  show ?thesis
    using ok split_signs_sum [OF ok] by (simp add: q)
qed

text \<open>The statement of C9 at a concrete edge.\<close>

theorem split_complementary_witness:
  "inputs_ok moving_edge \<and>
   (\<exists>q s1. split_step moving_edge = Some (q, s1) \<and>
      a0 s1 * a1 s1 = 0 \<and> a0 s1 - a1 s1 = \<bar>q\<bar> \<and>
      (a0 s1 = 0 \<or> a1 s1 = 0) \<and> ((a0 s1 = 0 \<and> a1 s1 = 0) = (q = 0)))"
proof -
  have ok: "inputs_ok moving_edge"
    by (simp add: inputs_ok_def edge_defs)
  show ?thesis
    using ok split_complementary [OF ok] by simp
qed

text \<open>The statement of C4 at a concrete edge.\<close>

theorem galilean_invariance_witness:
  "inputs_ok comoving_edge \<and> dynamic_grid comoving_edge \<and>
   V_i comoving_edge ! 1 = GridVel_i comoving_edge ! 0 \<and>
   V_i comoving_edge ! 2 = GridVel_i comoving_edge ! 1 \<and>
   V_j comoving_edge ! 1 = GridVel_j comoving_edge ! 0 \<and>
   V_j comoving_edge ! 2 = GridVel_j comoving_edge ! 1 \<and>
   (\<exists>s1. split_step comoving_edge = Some (0, s1) \<and> a0 s1 = 0 \<and> a1 s1 = 0)"
proof -
  have ok: "inputs_ok comoving_edge" and dyn: "dynamic_grid comoving_edge"
    by (simp_all add: inputs_ok_def edge_defs)
  have i: "\<forall>d<unat (nDim comoving_edge). V_i comoving_edge ! (d + 1) = GridVel_i comoving_edge ! d"
    and j: "\<forall>d<unat (nDim comoving_edge). V_j comoving_edge ! (d + 1) = GridVel_j comoving_edge ! d"
    by (simp_all add: edge_defs all_less_two)
  have "V_i comoving_edge ! 1 = GridVel_i comoving_edge ! 0"
    "V_i comoving_edge ! 2 = GridVel_i comoving_edge ! 1"
    "V_j comoving_edge ! 1 = GridVel_j comoving_edge ! 0"
    "V_j comoving_edge ! 2 = GridVel_j comoving_edge ! 1"
    by (simp_all add: edge_defs)
  then show ?thesis
    using ok dyn galilean_invariance [OF ok dyn i j] by simp
qed



section \<open>The tape and the grid velocities\<close>

lemma static_loop_reads:
  assumes "nDim s' = nDim s" and "V_i s' = V_i s" and "V_j s' = V_j s" and "Normal s' = Normal s"
  shows "static_loop s' iDim q = static_loop s iDim q"
  using assms
proof (induction s iDim q rule: static_loop.induct)
  case (1 s iDim q_ij)
  show ?case
  proof (cases "iDim < nDim s")
    case True
    show ?thesis
    proof (cases "rd (V_i s) (unat iDim + 1)")
      case None
      then show ?thesis
        unfolding static_loop.simps [of s iDim q_ij] static_loop.simps [of s' iDim q_ij]
        using True "1.prems" by simp
    next
      case vi: (Some vi)
      show ?thesis
      proof (cases "rd (V_j s) (unat iDim + 1)")
        case None
        then show ?thesis
          unfolding static_loop.simps [of s iDim q_ij] static_loop.simps [of s' iDim q_ij]
          using True vi "1.prems" by simp
      next
        case vj: (Some vj)
        show ?thesis
        proof (cases "rd (Normal s) (unat iDim)")
          case None
          then show ?thesis
            unfolding static_loop.simps [of s iDim q_ij] static_loop.simps [of s' iDim q_ij]
            using True vi vj "1.prems" by simp
        next
          case n: (Some n)
          have "static_loop s' (iDim + 1) (q_ij + 0.5 * (vi + vj) * n) =
              static_loop s (iDim + 1) (q_ij + 0.5 * (vi + vj) * n)"
            using "1.IH" [OF True vi vj n "1.prems"] .
          then show ?thesis
            unfolding static_loop.simps [of s iDim q_ij] static_loop.simps [of s' iDim q_ij]
            using True vi vj n "1.prems" by simp
        qed
      qed
    qed
  next
    case False
    then show ?thesis
      unfolding static_loop.simps [of s iDim q_ij] static_loop.simps [of s' iDim q_ij]
      using "1.prems" by simp
  qed
qed

lemma convective_speed_static_GridVel:
  assumes "\<not> dynamic_grid s"
  shows "convective_speed (s\<lparr>GridVel_i := gi, GridVel_j := gj\<rparr>) = convective_speed s"
  using assms static_loop_reads [of "s\<lparr>GridVel_i := gi, GridVel_j := gj\<rparr>" s 0 0]
  by (simp add: convective_speed_def)

lemma split_step_static_GridVel:
  assumes "\<not> dynamic_grid s"
  shows "split_step (s\<lparr>GridVel_i := gi, GridVel_j := gj\<rparr>) =
           map_option (\<lambda>(q, s1). (q, s1\<lparr>GridVel_i := gi, GridVel_j := gj\<rparr>)) (split_step s)"
proof -
  have q: "convective_speed (s\<lparr>GridVel_i := gi, GridVel_j := gj, Density_i := di, Density_j := dj\<rparr>) =
      convective_speed (s\<lparr>Density_i := di, Density_j := dj\<rparr>)" for di dj
    using assms
      static_loop_reads [of "s\<lparr>GridVel_i := gi, GridVel_j := gj, Density_i := di, Density_j := dj\<rparr>"
        "s\<lparr>Density_i := di, Density_j := dj\<rparr>" 0 0]
    by (simp add: convective_speed_def)
  show ?thesis
  proof (cases "rd (V_i s) (unat (nDim s) + 2)")
    case None
    then show ?thesis by (simp add: split_step_def)
  next
    case di: (Some di)
    show ?thesis
    proof (cases "rd (V_j s) (unat (nDim s) + 2)")
      case None
      then show ?thesis using di by (simp add: split_step_def)
    next
      case dj: (Some dj)
      show ?thesis
      proof (cases "convective_speed (s\<lparr>Density_i := di, Density_j := dj\<rparr>)")
        case None
        then show ?thesis
          using di dj by (simp add: split_step_def Let_def q)
      next
        case (Some q_ij)
        then show ?thesis
          using di dj by (simp add: split_step_def Let_def q)
      qed
    qed
  qed
qed

lemma base_inputs_static:
  "\<not> dynamic_grid s \<Longrightarrow> base_inputs s =
     [SetPreaccIn TNormal (unat (nDim s)), SetPreaccIn TScalarVar_i (unat (nVar s)),
      SetPreaccIn TScalarVar_j (unat (nVar s))]"
  by (simp add: base_inputs_def)

text \<open>
  Claim C10. When \<open>dynamic_grid\<close> is false, replacing the two grid velocities by any
  other arrays leaves the outcome of the split step unchanged in its convective speed and
  in \<open>a0\<close> and \<open>a1\<close> (also in whether it reads out of range), and the registrations that
  \<open>ComputeResidual\<close> itself puts on the tape are the normal and the two scalar arrays
  only: no grid velocity is registered.
\<close>
theorem static_grid_ignores_GridVel:
  assumes "\<not> dynamic_grid s"
  shows "map_option (\<lambda>(q, s1). (q, a0 s1, a1 s1))
             (split_step (s\<lparr>GridVel_i := gi, GridVel_j := gj\<rparr>)) =
           map_option (\<lambda>(q, s1). (q, a0 s1, a1 s1)) (split_step s) \<and>
         ComputeResidual E F config s tape =
           do { (q_ij, s1) \<leftarrow> split_step s;
                s2 \<leftarrow> F config s1;
                Some ((Flux s2, Jacobian_i s2, Jacobian_j s2), s2,
                  tape @ [StartPreacc, SetPreaccIn TNormal (unat (nDim s)),
                    SetPreaccIn TScalarVar_i (unat (nVar s)),
                    SetPreaccIn TScalarVar_j (unat (nVar s))] @ E s @
                    [SetPreaccOut TFlux (unat (nVar s2)), EndPreacc]) }"
proof
  show "map_option (\<lambda>(q, s1). (q, a0 s1, a1 s1))
             (split_step (s\<lparr>GridVel_i := gi, GridVel_j := gj\<rparr>)) =
           map_option (\<lambda>(q, s1). (q, a0 s1, a1 s1)) (split_step s)"
    unfolding split_step_static_GridVel [OF assms]
    by (cases "split_step s") (simp_all add: split_beta)
next
  show "ComputeResidual E F config s tape =
           do { (q_ij, s1) \<leftarrow> split_step s;
                s2 \<leftarrow> F config s1;
                Some ((Flux s2, Jacobian_i s2, Jacobian_j s2), s2,
                  tape @ [StartPreacc, SetPreaccIn TNormal (unat (nDim s)),
                    SetPreaccIn TScalarVar_i (unat (nVar s)),
                    SetPreaccIn TScalarVar_j (unat (nVar s))] @ E s @
                    [SetPreaccOut TFlux (unat (nVar s2)), EndPreacc]) }"
    by (simp add: ComputeResidual_unfold base_inputs_static [OF assms])
qed

text \<open>The statement of C10 at a concrete edge.\<close>

theorem static_grid_ignores_GridVel_witness:
  "\<not> dynamic_grid static_edge \<and>
   map_option (\<lambda>(q, s1). (q, a0 s1, a1 s1))
      (split_step (static_edge\<lparr>GridVel_i := [9, 9], GridVel_j := [4, 4]\<rparr>)) =
     Some (1 / 2, 1 / 2, 0) \<and>
   map_option (\<lambda>(q, s1). (q, a0 s1, a1 s1)) (split_step static_edge) = Some (1 / 2, 1 / 2, 0)"
proof -
  have st: "\<not> dynamic_grid static_edge"
    by (simp add: edge_defs)
  have run: "map_option (\<lambda>(q, s1). (q, a0 s1, a1 s1)) (split_step static_edge) =
      Some (1 / 2, 1 / 2, 0)"
    by (simp add: split_step_def convective_speed_def static_loop.simps rd_def edge_defs)
  have same: "map_option (\<lambda>(q, s1). (q, a0 s1, a1 s1))
      (split_step (static_edge\<lparr>GridVel_i := [9, 9], GridVel_j := [4, 4]\<rparr>)) =
      map_option (\<lambda>(q, s1). (q, a0 s1, a1 s1)) (split_step static_edge)"
    by (rule static_grid_ignores_GridVel [OF st, THEN conjunct1])
  show ?thesis
  proof (intro conjI)
    show "\<not> dynamic_grid static_edge" by (rule st)
    show "map_option (\<lambda>(q, s1). (q, a0 s1, a1 s1))
        (split_step (static_edge\<lparr>GridVel_i := [9, 9], GridVel_j := [4, 4]\<rparr>)) =
        Some (1 / 2, 1 / 2, 0)"
      unfolding same by (rule run)
    show "map_option (\<lambda>(q, s1). (q, a0 s1, a1 s1)) (split_step static_edge) =
        Some (1 / 2, 1 / 2, 0)"
      by (rule run)
  qed
qed

text \<open>
  Claim C3. For wide enough inputs a call of \<open>ComputeResidual\<close> extends the tape by, in
  this order: the opening of the scope; the registration of \<open>Normal\<close> with \<open>nDim\<close> entries
  and of \<open>ScalarVar_i\<close> and \<open>ScalarVar_j\<close> with \<open>nVar\<close> entries; the registration of
  \<open>GridVel_i\<close> and \<open>GridVel_j\<close> with \<open>nDim\<close> entries exactly when \<open>dynamic_grid\<close> is
  set; the model's extra registrations; then, after the split step and the model's
  \<open>FinishResidualCalc\<close> on its result, the registration of \<open>Flux\<close> as output with the
  object's \<open>nVar\<close> entries; and the closing of the scope. Each happens once.
\<close>
theorem preaccumulation_protocol:
  assumes "inputs_ok s"
  shows "\<exists>q s1. split_step s = Some (q, s1) \<and>
           ComputeResidual E F config s tape =
             do { s2 \<leftarrow> F config s1;
                  Some ((Flux s2, Jacobian_i s2, Jacobian_j s2), s2,
                    tape @ [StartPreacc, SetPreaccIn TNormal (unat (nDim s)),
                      SetPreaccIn TScalarVar_i (unat (nVar s)),
                      SetPreaccIn TScalarVar_j (unat (nVar s))] @
                    (if dynamic_grid s
                     then [SetPreaccIn TGridVel_i (unat (nDim s)),
                           SetPreaccIn TGridVel_j (unat (nDim s))]
                     else []) @
                    E s @ [SetPreaccOut TFlux (unat (nVar s2)), EndPreacc]) }"
proof (intro exI conjI)
  show split: "split_step s = Some (spec_q s, split_state s)"
    using assms by (rule split_step_spec)
  show "ComputeResidual E F config s tape =
             do { s2 \<leftarrow> F config (split_state s);
                  Some ((Flux s2, Jacobian_i s2, Jacobian_j s2), s2,
                    tape @ [StartPreacc, SetPreaccIn TNormal (unat (nDim s)),
                      SetPreaccIn TScalarVar_i (unat (nVar s)),
                      SetPreaccIn TScalarVar_j (unat (nVar s))] @
                    (if dynamic_grid s
                     then [SetPreaccIn TGridVel_i (unat (nDim s)),
                           SetPreaccIn TGridVel_j (unat (nDim s))]
                     else []) @
                    E s @ [SetPreaccOut TFlux (unat (nVar s2)), EndPreacc]) }"
    by (simp add: ComputeResidual_unfold split base_inputs_def)
qed

text \<open>The statement of C3 at a concrete edge.\<close>

theorem preaccumulation_protocol_witness:
  "inputs_ok moving_edge \<and>
   map_option (\<lambda>(r, s2, tape). tape)
     (ComputeResidual linear_ExtraADPreaccIn linear_FinishResidualCalc
        (example_config True) moving_edge []) =
   Some [StartPreacc, SetPreaccIn TNormal 2, SetPreaccIn TScalarVar_i 1,
         SetPreaccIn TScalarVar_j 1, SetPreaccIn TGridVel_i 2, SetPreaccIn TGridVel_j 2,
         SetPreaccOut TFlux 1, EndPreacc]"
proof -
  have ok: "inputs_ok moving_edge"
    by (simp add: inputs_ok_def edge_defs)
  from preaccumulation_protocol [OF ok, of linear_ExtraADPreaccIn linear_FinishResidualCalc "example_config True" "[]"]
  obtain q s1 where s1: "split_step moving_edge = Some (q, s1)"
    and run: "ComputeResidual linear_ExtraADPreaccIn linear_FinishResidualCalc
        (example_config True) moving_edge [] =
      do { s2 \<leftarrow> linear_FinishResidualCalc (example_config True) s1;
           Some ((Flux s2, Jacobian_i s2, Jacobian_j s2), s2,
             [] @ [StartPreacc, SetPreaccIn TNormal (unat (nDim moving_edge)),
                SetPreaccIn TScalarVar_i (unat (nVar moving_edge)),
                SetPreaccIn TScalarVar_j (unat (nVar moving_edge))] @
             (if dynamic_grid moving_edge
              then [SetPreaccIn TGridVel_i (unat (nDim moving_edge)),
                    SetPreaccIn TGridVel_j (unat (nDim moving_edge))]
              else []) @
             linear_ExtraADPreaccIn moving_edge @
             [SetPreaccOut TFlux (unat (nVar s2)), EndPreacc]) }"
    by blast
  have "split_state moving_edge = s1"
    using split_step_spec [OF ok] s1 by simp
  then have "nVar s1 = 1" "ScalarVar_i s1 = [3]" "ScalarVar_j s1 = [5]"
    by (auto simp add: split_state_def edge_defs)
  then have "map_option (\<lambda>(r, s2, tape). tape)
     (ComputeResidual linear_ExtraADPreaccIn linear_FinishResidualCalc
        (example_config True) moving_edge []) =
   Some [StartPreacc, SetPreaccIn TNormal 2, SetPreaccIn TScalarVar_i 1,
         SetPreaccIn TScalarVar_j 1, SetPreaccIn TGridVel_i 2, SetPreaccIn TGridVel_j 2,
         SetPreaccOut TFlux 1, EndPreacc]"
    unfolding run
    by (simp add: linear_FinishResidualCalc_def linear_ExtraADPreaccIn_def edge_defs)
  then show ?thesis
    using ok by blast
qed

section \<open>The scenarios of the specification and the constructor\<close>

text \<open>
  Claim C8. The static-mesh scenario: two dimensions, one scalar, normal \<open>[1, 0]\<close>,
  velocities \<open>[2, 0]\<close> and \<open>[-1, 0]\<close>, density 1 on both sides, \<open>dynamic_grid\<close> false.
  The convective speed is \<open>1/2\<close>, so \<open>a0 = 1/2\<close> and \<open>a1 = 0\<close>; with scalars 3 and 5
  the linear upwind model returns \<open>Flux = [3/2]\<close>, \<open>Jacobian_i = [[1/2]]\<close> and
  \<open>Jacobian_j = [[0]]\<close>. The other entries of the primitive vectors, the fresh storage, the
  rest of the configuration, the model's extra registrations and the tape are arbitrary.
\<close>
theorem static_scenario:
  "map_option (\<lambda>(q, s1). (q, a0 s1, a1 s1))
     (split_step
       ((CUpwScalar_ctor freshF freshI freshJ 2 1 (config\<lparr>Dynamic_Grid := False\<rparr>))
          \<lparr>Normal := [1, 0], ScalarVar_i := [3], ScalarVar_j := [5],
           V_i := [p_i, 2, 0, t_i, 1], V_j := [p_j, - 1, 0, t_j, 1]\<rparr>)) =
     Some (1 / 2, 1 / 2, 0) \<and>
   map_option fst
     (ComputeResidual E linear_FinishResidualCalc (config\<lparr>Dynamic_Grid := False\<rparr>)
       ((CUpwScalar_ctor freshF freshI freshJ 2 1 (config\<lparr>Dynamic_Grid := False\<rparr>))
          \<lparr>Normal := [1, 0], ScalarVar_i := [3], ScalarVar_j := [5],
           V_i := [p_i, 2, 0, t_i, 1], V_j := [p_j, - 1, 0, t_j, 1]\<rparr>) tape) =
     Some ([3 / 2], [[1 / 2]], [[0]])"
  by (simp add: ComputeResidual_def linear_FinishResidualCalc_def split_step_def
      convective_speed_def static_loop.simps rd_def CUpwScalar_ctor_def new_array_def)

text \<open>
  Claim C5, as amended. The moving-mesh scenario: the static scenario with
  \<open>dynamic_grid\<close> set and grid velocity \<open>[2, 0]\<close> on both sides. The relative velocity is
  \<open>[0, 0]\<close> on side \<open>i\<close> and \<open>[-3, 0]\<close> on side \<open>j\<close>, so the convective speed is
  \<open>-3/2\<close>, \<open>a0 = 0\<close> and \<open>a1 = -3/2\<close>; with the linear upwind model the flux is
  \<open>[-3/2 * scalar_j]\<close>, whatever \<open>scalar_i\<close> is, with \<open>Jacobian_i = [[0]]\<close> and
  \<open>Jacobian_j = [[-3/2]]\<close>.
\<close>
theorem moving_scenario:
  "map_option (\<lambda>(q, s1). (q, a0 s1, a1 s1))
     (split_step
       ((CUpwScalar_ctor freshF freshI freshJ 2 1 (config\<lparr>Dynamic_Grid := True\<rparr>))
          \<lparr>Normal := [1, 0], ScalarVar_i := [scalar_i], ScalarVar_j := [scalar_j],
           GridVel_i := [2, 0], GridVel_j := [2, 0],
           V_i := [p_i, 2, 0, t_i, 1], V_j := [p_j, - 1, 0, t_j, 1]\<rparr>)) =
     Some (- 3 / 2, 0, - 3 / 2) \<and>
   map_option fst
     (ComputeResidual E linear_FinishResidualCalc (config\<lparr>Dynamic_Grid := True\<rparr>)
       ((CUpwScalar_ctor freshF freshI freshJ 2 1 (config\<lparr>Dynamic_Grid := True\<rparr>))
          \<lparr>Normal := [1, 0], ScalarVar_i := [scalar_i], ScalarVar_j := [scalar_j],
           GridVel_i := [2, 0], GridVel_j := [2, 0],
           V_i := [p_i, 2, 0, t_i, 1], V_j := [p_j, - 1, 0, t_j, 1]\<rparr>) tape) =
     Some ([- 3 / 2 * scalar_j], [[0]], [[- 3 / 2]])"
  by (simp add: ComputeResidual_def linear_FinishResidualCalc_def split_step_def
      convective_speed_def dynamic_loop.simps rd_def CUpwScalar_ctor_def new_array_def)

text \<open>
  Claim C5 as it was stated has the convective speed 0 and the flux \<open>[0]\<close> in that
  scenario. With scalars 3 and 5 the speed is \<open>-3/2\<close> and the flux is \<open>[-15/2]\<close>.
\<close>
theorem moving_scenario_counterexample:
  "map_option fst (split_step moving_edge) = Some (- 3 / 2) \<and>
   map_option fst
     (ComputeResidual linear_ExtraADPreaccIn linear_FinishResidualCalc (example_config True)
        moving_edge []) = Some ([- 15 / 2], [[0]], [[- 3 / 2]]) \<and>
   map_option (fst \<circ> fst)
     (ComputeResidual linear_ExtraADPreaccIn linear_FinishResidualCalc (example_config True)
        moving_edge []) \<noteq> Some [0]"
  by (simp add: ComputeResidual_def linear_FinishResidualCalc_def split_step_def
      convective_speed_def dynamic_loop.simps rd_def edge_defs)

text \<open>
  Claim C6, as amended. Right after construction with \<open>(nDim, nVar)\<close> the flux buffer
  has \<open>nVar\<close> entries and each Jacobian has \<open>nVar\<close> rows of \<open>nVar\<close> entries; \<open>a0\<close> and
  \<open>a1\<close> are zero; the entries of the three buffers are what the fresh storage holds, the
  constructor writes none of them, and they are all zero when the fresh storage is.
\<close>
theorem ctor_buffers:
  "length (Flux (CUpwScalar_ctor freshF freshI freshJ ndim nvar config)) = unat nvar \<and>
   map length (Jacobian_i (CUpwScalar_ctor freshF freshI freshJ ndim nvar config)) =
     replicate (unat nvar) (unat nvar) \<and>
   map length (Jacobian_j (CUpwScalar_ctor freshF freshI freshJ ndim nvar config)) =
     replicate (unat nvar) (unat nvar) \<and>
   Flux (CUpwScalar_ctor freshF freshI freshJ ndim nvar config) = map freshF [0..<unat nvar] \<and>
   Jacobian_i (CUpwScalar_ctor freshF freshI freshJ ndim nvar config) =
     map (\<lambda>iVar. map (freshI iVar) [0..<unat nvar]) [0..<unat nvar] \<and>
   Jacobian_j (CUpwScalar_ctor freshF freshI freshJ ndim nvar config) =
     map (\<lambda>iVar. map (freshJ iVar) [0..<unat nvar]) [0..<unat nvar] \<and>
   a0 (CUpwScalar_ctor freshF freshI freshJ ndim nvar config) = 0 \<and>
   a1 (CUpwScalar_ctor freshF freshI freshJ ndim nvar config) = 0 \<and>
   Flux (CUpwScalar_ctor (\<lambda>k. 0) (\<lambda>i k. 0) (\<lambda>i k. 0) ndim nvar config) =
     replicate (unat nvar) 0 \<and>
   Jacobian_i (CUpwScalar_ctor (\<lambda>k. 0) (\<lambda>i k. 0) (\<lambda>i k. 0) ndim nvar config) =
     replicate (unat nvar) (replicate (unat nvar) 0) \<and>
   Jacobian_j (CUpwScalar_ctor (\<lambda>k. 0) (\<lambda>i k. 0) (\<lambda>i k. 0) ndim nvar config) =
     replicate (unat nvar) (replicate (unat nvar) 0)"
  by (simp add: CUpwScalar_ctor_def new_array_def map_replicate_const comp_def)

text \<open>
  Claim C6 as it was stated has every entry of the buffers zero. Constructed on fresh
  storage that holds ones, the three buffers hold ones.
\<close>
theorem ctor_buffers_counterexample:
  "Flux (CUpwScalar_ctor (\<lambda>k. 1) (\<lambda>i k. 1) (\<lambda>i k. 1) 2 1 (example_config False)) = [1] \<and>
   Jacobian_i (CUpwScalar_ctor (\<lambda>k. 1) (\<lambda>i k. 1) (\<lambda>i k. 1) 2 1 (example_config False)) = [[1]] \<and>
   Jacobian_j (CUpwScalar_ctor (\<lambda>k. 1) (\<lambda>i k. 1) (\<lambda>i k. 1) 2 1 (example_config False)) = [[1]] \<and>
   Flux (CUpwScalar_ctor (\<lambda>k. 1) (\<lambda>i k. 1) (\<lambda>i k. 1) 2 1 (example_config False)) \<noteq> [0]"
  by (simp add: CUpwScalar_ctor_def new_array_def)

end
